theory Spec2Isabelle
  imports Main
begin

section \<open>Bytes, Go builtins and the formatting verbs the client uses\<close>

text \<open>
  A Go \<open>[]byte\<close> and a Go \<open>string\<close> are both sequences of bytes; both are modelled as
  \<open>char list\<close> (an Isabelle \<open>char\<close> is one byte). \<open>make([]byte, n)\<close> is \<open>n\<close> zero bytes.
\<close>

type_synonym bytes = string

definition NUL :: char where
  "NUL = CHR 0x00"

definition make_bytes :: "nat \<Rightarrow> bytes" where
  "make_bytes n = replicate n NUL"

text \<open>
  The builtin \<open>copy(dst, src)\<close> overwrites the first \<open>min(len(dst), len(src))\<close> elements
  of \<open>dst\<close> and leaves the rest of \<open>dst\<close> as it was. The result is the new content of \<open>dst\<close>.
\<close>

definition copy_go :: "bytes \<Rightarrow> bytes \<Rightarrow> bytes" where
  "copy_go dst src = take (length dst) src @ drop (length src) dst"

definition digit_char :: "nat \<Rightarrow> char" where
  "digit_char d = ''0123456789'' ! d"

function decimal :: "nat \<Rightarrow> string" where
  "decimal n = (if n < 10 then [digit_char n] else decimal (n div 10) @ [digit_char (n mod 10)])"
  by pat_completeness auto
termination
  by (relation "measure (\<lambda>n. n)") auto

definition zero_pad :: "nat \<Rightarrow> string \<Rightarrow> string" where
  "zero_pad w s = replicate (w - length s) (CHR ''0'') @ s"

text \<open>
  \<open>fmt.Sprintf("%d", n)\<close>: the decimal digits, after a minus sign when \<open>n\<close> is negative.
\<close>

definition Sprintf_d :: "int \<Rightarrow> string" where
  "Sprintf_d n = (if n < 0 then CHR ''-'' # decimal (nat (- n)) else decimal (nat n))"

text \<open>
  \<open>fmt.Sprintf("%03d", n)\<close>: at least three characters, padded with zeros on the left
  (after the sign, which counts towards the width); a longer number is not cut.
\<close>

definition Sprintf_03d :: "int \<Rightarrow> string" where
  "Sprintf_03d n =
     (if n < 0 then CHR ''-'' # zero_pad 2 (decimal (nat (- n)))
      else zero_pad 3 (decimal (nat n)))"

text \<open>
  \<open>strconv.Atoi\<close>: an optional sign, then one or more decimal digits and nothing
  else; the value has to fit a 64-bit \<open>int\<close>. \<open>None\<close> is the returned error.
\<close>

definition is_digit :: "char \<Rightarrow> bool" where
  "is_digit c = (c \<in> set ''0123456789'')"

definition digit_val :: "char \<Rightarrow> nat" where
  "digit_val c = of_char c - 48"

definition digits_val :: "string \<Rightarrow> nat" where
  "digits_val ds = foldl (\<lambda>a c. 10 * a + digit_val c) 0 ds"

definition strip_sign :: "string \<Rightarrow> bool \<times> string" where
  "strip_sign s =
     (case s of
        [] \<Rightarrow> (False, [])
      | c # r \<Rightarrow>
          if c = CHR ''-'' then (True, r)
          else if c = CHR ''+'' then (False, r)
          else (False, s))"

definition Atoi :: "string \<Rightarrow> int option" where
  "Atoi s =
     (case strip_sign s of
        (neg, ds) \<Rightarrow>
          if ds = [] then None
          else if list_all is_digit ds then
            (let v = int (digits_val ds);
                 r = (if neg then - v else v)
             in if r < - (2 ^ 63) then None
                else if 2 ^ 63 - 1 < r then None
                else Some r)
          else None)"

section \<open>The connection\<close>

text \<open>
  The TCP connection (\<open>net.Conn\<close>) as the client sees it.

  \<^item> \<open>rx\<close> is what the peer delivers, in the order the reads meet it. \<open>Bytes b\<close> is a run
    of bytes that is in the receive buffer when a read looks (a read never waits for more
    once it has something); \<open>Bytes []\<close> is a read deadline that passes with nothing
    delivered; \<open>Eof\<close> is the peer closing the stream. An exhausted list means that nothing
    arrives any more, so the deadline expires.
  \<^item> \<open>tx\<close> records the buffer of every successful \<open>Write\<close> call, oldest first.
  \<^item> \<open>closed\<close>: the connection was closed on this side; every operation then fails.
\<close>

datatype rx_event = Bytes bytes | Eof

record Conn =
  rx :: "rx_event list"
  tx :: "bytes list"
  closed :: bool

datatype net_error = NetTimeout | NetEOF | NetClosed

text \<open>
  \<open>conn.Read(buf)\<close> returns the count and the buffer as it is afterwards. A read into
  an empty buffer returns at once with count 0 and no error. Otherwise it takes at most
  \<open>len(buf)\<close> of the bytes that are there, and leaves the rest for the next read.
\<close>

definition Conn_Read :: "Conn \<Rightarrow> bytes \<Rightarrow> (net_error + nat \<times> bytes) \<times> Conn" where
  "Conn_Read c buf =
     (if closed c then (Inl NetClosed, c)
      else if buf = [] then (Inr (0, buf), c)
      else
        (case rx c of
           [] \<Rightarrow> (Inl NetTimeout, c)
         | Eof # es \<Rightarrow> (Inl NetEOF, c)
         | Bytes b # es \<Rightarrow>
             if b = [] then (Inl NetTimeout, c\<lparr>rx := es\<rparr>)
             else
               (let n = min (length buf) (length b)
                in (Inr (n, copy_go buf (take n b)),
                    c\<lparr>rx := (if n < length b then Bytes (drop n b) # es else es)\<rparr>))))"

definition Conn_Write :: "Conn \<Rightarrow> bytes \<Rightarrow> net_error option \<times> Conn" where
  "Conn_Write c b =
     (if closed c then (Some NetClosed, c)
      else (None, c\<lparr>tx := tx c @ [b]\<rparr>))"

definition Conn_SetReadDeadline :: "Conn \<Rightarrow> net_error option" where
  "Conn_SetReadDeadline c = (if closed c then Some NetClosed else None)"

section \<open>Framing: \<open>createHeader\<close>, \<open>sendMessage\<close>, \<open>readResponse\<close>\<close>

text \<open>
  \<open>createHeader\<close> allocates 32 bytes, copies the session identifier into the first 16 and
  the formatted length into the bytes from offset 16 on.
\<close>

definition createHeader :: "string \<Rightarrow> int \<Rightarrow> bytes" where
  "createHeader sessionID len =
     (let header = make_bytes 32;
          header = copy_go (take 16 header) sessionID @ drop 16 header;
          lengthStr = Sprintf_03d len;
          header = take 16 header @ copy_go (drop 16 header) lengthStr
      in header)"

datatype error =
    WriteError net_error
  | DeadlineError net_error
  | ReadTimeoutNoMessage
  | HeaderReadError net_error
  | InvalidMessageLength
  | ReadTimeoutIncomplete
  | BodyReadError net_error
  | PanicMakeSlice

text \<open>
  \<open>sendMessage\<close> prepends the header built for \<open>len(message) + 32\<close> and hands the whole
  frame to one \<open>Write\<close>; the error it returns is the one of \<open>Write\<close>.
\<close>

definition sendMessage :: "Conn \<Rightarrow> bytes \<Rightarrow> string \<Rightarrow> error option \<times> Conn" where
  "sendMessage conn message sessionID =
     (let fullXML = message;
          header = createHeader sessionID (int (length fullXML) + 32);
          fullMessage = header @ fullXML
      in case Conn_Write conn fullMessage of
           (None, c) \<Rightarrow> (None, c)
         | (Some e, c) \<Rightarrow> (Some (WriteError e), c))"

text \<open>
  \<open>readResponse\<close> sets the deadline, reads once into a 19-byte header buffer, parses the
  bytes from offset 16 on as the length, allocates \<open>length - 16\<close> bytes for the body
  (a negative size panics) and reads once into it. Both counts returned by \<open>Read\<close>
  are dropped.
\<close>

definition readResponse :: "Conn \<Rightarrow> (error + bytes \<times> bytes) \<times> Conn" where
  "readResponse conn =
     (case Conn_SetReadDeadline conn of
        Some e \<Rightarrow> (Inl (DeadlineError e), conn)
      | None \<Rightarrow>
          (case Conn_Read conn (make_bytes 19) of
             (Inl e, c1) \<Rightarrow>
               (if e = NetTimeout then (Inl ReadTimeoutNoMessage, c1)
                else (Inl (HeaderReadError e), c1))
           | (Inr (n, header), c1) \<Rightarrow>
               (case Atoi (drop 16 header) of
                  None \<Rightarrow> (Inl InvalidMessageLength, c1)
                | Some len \<Rightarrow>
                    if len - 16 < 0 then (Inl PanicMakeSlice, c1)
                    else
                      (case Conn_Read c1 (make_bytes (nat (len - 16))) of
                         (Inl e, c2) \<Rightarrow>
                           (if e = NetTimeout then (Inl ReadTimeoutIncomplete, c2)
                            else (Inl (BodyReadError e), c2))
                       | (Inr (m, body), c2) \<Rightarrow> (Inr (header, body), c2)))))"

section \<open>Messages\<close>

record LogonRequest =
  logon_RequestID :: string
  logon_Username :: string
  logon_Password :: string
  logon_ApplicationID :: string

record USSDRequest =
  RequestID :: string
  MSISDN :: string
  IMSI :: string
  StarCode :: string
  ClientID :: string
  Phase :: int
  DCS :: int
  MsgType :: int
  UserData :: string
  EndOfSession :: int
  ErrorCode :: string

text \<open>
  Modelled from the spec: the declaration of the struct \<open>USSDResponse\<close> is not among the
  sources. The spec gives it the shape of the request without \<open>imsi\<close> and \<open>errorCode\<close>;
  the fields are the ones the composite literal in \<open>handleMenuRequest\<close> names, the
  numeric ones being printed with \<open>%d\<close>.
\<close>

record USSDResponse =
  resp_RequestID :: string
  resp_MSISDN :: string
  resp_StarCode :: string
  resp_ClientID :: string
  resp_Phase :: int
  resp_DCS :: int
  resp_MsgType :: int
  resp_UserData :: string
  resp_EndOfSession :: int

record USSDMenuRequest =
  Telco :: string
  Shortcode :: string
  ProductID :: int
  Phone :: string
  Input :: string
  SessionID :: string

record USSDMenuResponse =
  Message :: string
  Continue :: bool

section \<open>The session responder\<close>

text \<open>
  What lies outside the process: the environment variable \<open>USSD_API_URL\<close> and the menu
  service behind it. \<open>menu_api\<close> stands for the HTTP POST of the JSON request, the
  reading of the body and its decoding; \<open>Inl\<close> is any of their errors. Encoding the
  request as JSON cannot fail for a struct of strings and integers, so that branch of
  \<open>getUssdMenu\<close> has no counterpart here. Log lines are not part of the model.
\<close>

datatype menu_error = UrlNotSet | ApiError

record Env =
  USSD_API_URL :: string
  menu_api :: "USSDMenuRequest \<Rightarrow> menu_error + USSDMenuResponse"

text \<open>
  What one responder run can change: the connection, the requests posted to the menu
  service (oldest first), and the monitoring jobs it started, each with its status text
  and whether it carried an error.
\<close>

record World =
  conn :: Conn
  menu_calls :: "USSDMenuRequest list"
  monitoring :: "(string \<times> bool) list"

definition UpdateMonitoringService :: "World \<Rightarrow> string \<Rightarrow> bool \<Rightarrow> World" where
  "UpdateMonitoringService w status failed = w\<lparr>monitoring := monitoring w @ [(status, failed)]\<rparr>"

definition getUssdMenu :: "Env \<Rightarrow> USSDRequest \<Rightarrow> World \<Rightarrow> (menu_error + USSDMenuResponse) \<times> World" where
  "getUssdMenu env req w =
     (let apiRequest =
            \<lparr>Telco = ''MTN'',
             Shortcode = ''*'' @ StarCode req @ ''#'',
             ProductID = 2,
             Phone = MSISDN req,
             Input = UserData req,
             SessionID = RequestID req\<rparr>
      in if USSD_API_URL env = [] then (Inl UrlNotSet, w)
         else (menu_api env apiRequest, w\<lparr>menu_calls := menu_calls w @ [apiRequest]\<rparr>))"

definition nl_tab :: string where
  "nl_tab = [CHR 0x0A, CHR 0x09]"

text \<open>The reply is printed with \<open>fmt.Sprintf\<close> into a fixed template, nothing is escaped.\<close>

definition USSDResponse_xml :: "USSDResponse \<Rightarrow> bytes" where
  "USSDResponse_xml response =
     ''<USSDResponse>'' @ nl_tab
     @ ''<requestId>'' @ resp_RequestID response @ ''</requestId>'' @ nl_tab
     @ ''<msisdn>'' @ resp_MSISDN response @ ''</msisdn>'' @ nl_tab
     @ ''<starCode>'' @ resp_StarCode response @ ''</starCode>'' @ nl_tab
     @ ''<clientId>'' @ resp_ClientID response @ ''</clientId>'' @ nl_tab
     @ ''<phase>'' @ Sprintf_d (resp_Phase response) @ ''</phase>'' @ nl_tab
     @ ''<dcs>'' @ Sprintf_d (resp_DCS response) @ ''</dcs>'' @ nl_tab
     @ ''<msgtype>'' @ Sprintf_d (resp_MsgType response) @ ''</msgtype>'' @ nl_tab
     @ ''<userdata>'' @ resp_UserData response @ ''</userdata>'' @ nl_tab
     @ ''<EndofSession>'' @ Sprintf_d (resp_EndOfSession response) @ ''</EndofSession>'' @ nl_tab
     @ ''</USSDResponse>''"

definition handleMenuRequest :: "Env \<Rightarrow> USSDRequest \<Rightarrow> World \<Rightarrow> World" where
  "handleMenuRequest env req w0 =
     (let w = UpdateMonitoringService w0 ''new'' False
      in if MsgType req \<noteq> 1 \<and> MsgType req \<noteq> 4 then w
         else if UserData req = [] then w
         else
           (case getUssdMenu env req w of
              (Inl err, w1) \<Rightarrow> UpdateMonitoringService w1 ''Failed to get USSD menu'' True
            | (Inr apiResponse, w1) \<Rightarrow>
                (let ussdMessage = Message apiResponse;
                     ussdContinue = Continue apiResponse;
                     response =
                       \<lparr>resp_RequestID = RequestID req,
                        resp_MSISDN = MSISDN req,
                        resp_StarCode = StarCode req,
                        resp_ClientID = ClientID req,
                        resp_Phase = Phase req,
                        resp_DCS = DCS req,
                        resp_MsgType = 2,
                        resp_UserData = ussdMessage,
                        resp_EndOfSession = 0\<rparr>;
                     response =
                       (if ussdContinue then response
                        else response\<lparr>resp_EndOfSession := 1, resp_MsgType := 6\<rparr>);
                     messageXML = USSDResponse_xml response
                 in case sendMessage (conn w1) messageXML (resp_RequestID response) of
                      (None, c) \<Rightarrow> w1\<lparr>conn := c\<rparr>
                    | (Some e, c) \<Rightarrow>
                        UpdateMonitoringService (w1\<lparr>conn := c\<rparr>)
                          ''Failed to send ussd request message'' True)))"

definition handleUSSDRequest :: "Env \<Rightarrow> USSDRequest \<Rightarrow> World \<Rightarrow> World" where
  "handleUSSDRequest env req w =
     (if ErrorCode req \<noteq> [] then w
      else if EndOfSession req = 0 then handleMenuRequest env req w
      else w)"

section \<open>Logon and keepalive\<close>

text \<open>
  \<open>xml.Marshal\<close> of the empty \<open>EnquireLink\<close> is its start and end tag. The encoding of the
  logon request is left to the library: \<open>marshal\<close> is a parameter of \<open>main\<close>.
\<close>

definition enqXML :: bytes where
  "enqXML = ''<ENQRequest></ENQRequest>''"

record Config =
  Username :: string
  Password :: string
  ClientID_env :: string

text \<open>
  The ticker loop of \<open>main\<close>: every tick sends one enquire link under \<open>sessionID\<close>; a
  failed send ends the process. The loop has no exit of its own, so the model runs it for
  the number of ticks that fire.
\<close>

fun keepalive :: "nat \<Rightarrow> string \<Rightarrow> Conn \<Rightarrow> error option \<times> Conn" where
  "keepalive 0 sessionID c = (None, c)"
| "keepalive (Suc ticks) sessionID c =
     (case sendMessage c enqXML sessionID of
        (Some e, c1) \<Rightarrow> (Some e, c1)
      | (None, c1) \<Rightarrow> keepalive ticks sessionID c1)"

text \<open>
  \<open>main\<close> on the main goroutine: send the logon under the generated request identifier,
  read one response, take its first 16 header bytes as the session identifier, then tick.
  \<open>Inl\<close> is the error \<open>log.Fatalf\<close> ends the process with; \<open>Inr\<close> carries the session
  identifier in use when the last tick has been served.
\<close>

definition main :: "(LogonRequest \<Rightarrow> bytes) \<Rightarrow> Config \<Rightarrow> string \<Rightarrow> nat \<Rightarrow> Conn \<Rightarrow> (error + string) \<times> Conn" where
  "main marshal cfg requestID ticks c0 =
     (let logon =
            \<lparr>logon_RequestID = requestID,
             logon_Username = Username cfg,
             logon_Password = Password cfg,
             logon_ApplicationID = ClientID_env cfg\<rparr>;
          logonXML = marshal logon
      in case sendMessage c0 logonXML requestID of
           (Some e, c1) \<Rightarrow> (Inl e, c1)
         | (None, c1) \<Rightarrow>
             (case readResponse c1 of
                (Inl e, c2) \<Rightarrow> (Inl e, c2)
              | (Inr (header, body), c2) \<Rightarrow>
                  (let sessionID = take 16 header
                   in case keepalive ticks sessionID c2 of
                        (Some e, c3) \<Rightarrow> (Inl e, c3)
                      | (None, c3) \<Rightarrow> (Inr sessionID, c3))))"

section \<open>Scenario data\<close>

text \<open>
  The inputs of the scenarios: a menu request of a subscriber, a menu service that answers
  with a text and a decision, an open connection on which nothing has been written yet.
\<close>

definition scenario_request :: USSDRequest where
  "scenario_request =
     \<lparr>RequestID = ''R1'', MSISDN = ''2348011112222'', IMSI = [], StarCode = ''123'',
      ClientID = ''7'', Phase = 2, DCS = 15, MsgType = 1, UserData = ''1'',
      EndOfSession = 0, ErrorCode = []\<rparr>"

definition scenario_env :: "bool \<Rightarrow> Env" where
  "scenario_env continue =
     \<lparr>USSD_API_URL = ''http://menu.example/api'',
      menu_api = (\<lambda>r. Inr \<lparr>Message = ''Menu text'', Continue = continue\<rparr>)\<rparr>"

definition open_conn :: "rx_event list \<Rightarrow> Conn" where
  "open_conn events = \<lparr>rx = events, tx = [], closed = False\<rparr>"

definition scenario_world :: World where
  "scenario_world = \<lparr>conn = open_conn [], menu_calls = [], monitoring = []\<rparr>"

text \<open>
  The logon of the scenario: the credentials, and the document \<open>xml.Marshal\<close> produces for a
  logon request whose values hold no character that XML escapes.
\<close>

definition scenario_config :: Config where
  "scenario_config = \<lparr>Username = ''u'', Password = ''p'', ClientID_env = ''12345''\<rparr>"

definition scenario_marshal :: "LogonRequest \<Rightarrow> bytes" where
  "scenario_marshal l =
     ''<AUTHRequest><requestId>'' @ logon_RequestID l @ ''</requestId><userName>'' @ logon_Username l
     @ ''</userName><passWord>'' @ logon_Password l @ ''</passWord><applicationId>''
     @ logon_ApplicationID l @ ''</applicationId></AUTHRequest>''"

section \<open>Auxiliary facts\<close>

lemma length_copy_go: "length (copy_go dst src) = length dst"
  by (simp add: copy_go_def)

lemma length_make_bytes: "length (make_bytes n) = n"
  by (simp add: make_bytes_def)

lemma length_createHeader: "length (createHeader sessionID len) = 32"
  by (simp add: createHeader_def Let_def length_copy_go length_make_bytes)

lemma take16_createHeader:
  "take 16 (createHeader sessionID len) = take 16 (sessionID @ replicate 16 NUL)"
  by (simp add: createHeader_def Let_def length_copy_go length_make_bytes copy_go_def
      make_bytes_def min_def)

lemma sendMessage_eq:
  "sendMessage c message sessionID =
     (if closed c then (Some (WriteError NetClosed), c)
      else (None, c\<lparr>tx := tx c @ [createHeader sessionID (int (length message) + 32) @ message]\<rparr>))"
  by (simp add: sendMessage_def Conn_Write_def Let_def)

lemma not_digit_NUL: "\<not> is_digit NUL"
  by (simp add: is_digit_def NUL_def)

lemma strip_sign_last:
  "strip_sign s = (neg, ds) \<Longrightarrow> ds \<noteq> [] \<Longrightarrow> s \<noteq> [] \<and> last s = last ds"
  by (auto simp: strip_sign_def split: list.splits if_splits)

lemma Atoi_Some_last:
  assumes "Atoi s = Some v"
  shows "s \<noteq> [] \<and> is_digit (last s)"
proof -
  obtain neg ds where sd: "strip_sign s = (neg, ds)" by (cases "strip_sign s")
  from assms sd have ne: "ds \<noteq> []" and dg: "list_all is_digit ds"
    by (auto simp: Atoi_def split: if_splits)
  from dg ne have "is_digit (last ds)"
    by (simp add: list_all_iff)
  with strip_sign_last[OF sd ne] show ?thesis by simp
qed

lemma getUssdMenu_ok:
  assumes "USSD_API_URL env \<noteq> []"
  shows "getUssdMenu env req w =
     (menu_api env \<lparr>Telco = ''MTN'', Shortcode = ''*'' @ StarCode req @ ''#'', ProductID = 2,
                    Phone = MSISDN req, Input = UserData req, SessionID = RequestID req\<rparr>,
      w\<lparr>menu_calls := menu_calls w @ [\<lparr>Telco = ''MTN'', Shortcode = ''*'' @ StarCode req @ ''#'', ProductID = 2,
                    Phone = MSISDN req, Input = UserData req, SessionID = RequestID req\<rparr>]\<rparr>)"
  using assms by (simp add: getUssdMenu_def Let_def)

lemma Sprintf_d_small: "Sprintf_d 0 = ''0''" "Sprintf_d 1 = ''1''" "Sprintf_d 2 = ''2''" "Sprintf_d 6 = ''6''"
  by (simp_all add: Sprintf_d_def digit_char_def)

lemma handleUSSDRequest_tx_cases:
  "tx (conn (handleUSSDRequest env req w)) = tx (conn w)
   \<or> (\<exists>r. menu_api env \<lparr>Telco = ''MTN'', Shortcode = ''*'' @ StarCode req @ ''#'', ProductID = 2,
                    Phone = MSISDN req, Input = UserData req, SessionID = RequestID req\<rparr> = Inr r
          \<and> tx (conn (handleUSSDRequest env req w)) = tx (conn w) @
               [createHeader (RequestID req)
                  (int (length (USSDResponse_xml
                     \<lparr>resp_RequestID = RequestID req, resp_MSISDN = MSISDN req,
                      resp_StarCode = StarCode req, resp_ClientID = ClientID req,
                      resp_Phase = Phase req, resp_DCS = DCS req,
                      resp_MsgType = (if Continue r then 2 else 6),
                      resp_UserData = Message r,
                      resp_EndOfSession = (if Continue r then 0 else 1)\<rparr>)) + 32)
                @ USSDResponse_xml
                     \<lparr>resp_RequestID = RequestID req, resp_MSISDN = MSISDN req,
                      resp_StarCode = StarCode req, resp_ClientID = ClientID req,
                      resp_Phase = Phase req, resp_DCS = DCS req,
                      resp_MsgType = (if Continue r then 2 else 6),
                      resp_UserData = Message r,
                      resp_EndOfSession = (if Continue r then 0 else 1)\<rparr>])"
  by (auto simp: handleUSSDRequest_def handleMenuRequest_def getUssdMenu_def
        Let_def sendMessage_eq UpdateMonitoringService_def split: sum.splits)

lemma Atoi_padded_None:
  assumes "length b < 19" 
  shows "Atoi (drop 16 (copy_go (make_bytes 19) b)) = None"
proof (rule ccontr)
  assume "Atoi (drop 16 (copy_go (make_bytes 19) b)) \<noteq> None"
  then obtain v where "Atoi (drop 16 (copy_go (make_bytes 19) b)) = Some v" by auto
  from Atoi_Some_last [OF this]
  have d: "is_digit (last (drop 16 (copy_go (make_bytes 19) b)))" by (rule conjunct2)
  have "last (drop 16 (copy_go (make_bytes 19) b)) = NUL"
    using assms by (simp add: copy_go_def make_bytes_def last_drop)
  with d not_digit_NUL show False by simp
qed

lemma readResponse_ok_header:
  assumes "readResponse c = (Inr (h, body), c')"
  shows "\<exists>b es. rx c = Bytes b # es \<and> 19 \<le> length b \<and> h = take 19 b
           \<and> \<not> closed c' \<and> tx c' = tx c"
proof -
  from assms have nc: "\<not> closed c"
    by (auto simp: readResponse_def Conn_SetReadDeadline_def split: if_splits)
  from assms nc obtain n c1 where r1: "Conn_Read c (make_bytes 19) = (Inr (n, h), c1)"
    by (auto simp: readResponse_def Conn_SetReadDeadline_def split: if_splits prod.splits sum.splits option.splits)
  from assms nc r1 obtain len where at: "Atoi (drop 16 h) = Some len"
    by (auto simp: readResponse_def Conn_SetReadDeadline_def split: if_splits prod.splits sum.splits option.splits)
  from r1 nc obtain b es where rx: "rx c = Bytes b # es" and bne: "b \<noteq> []"
    and h: "h = copy_go (make_bytes 19) (take (min 19 (length b)) b)"
    and c1: "c1 = c\<lparr>rx := (if min 19 (length b) < length b then Bytes (drop (min 19 (length b)) b) # es else es)\<rparr>"
    by (auto simp: Conn_Read_def make_bytes_def Let_def split: if_splits list.splits rx_event.splits)
  have ge: "19 \<le> length b"
  proof (rule ccontr)
    assume "\<not> 19 \<le> length b"
    then have lt: "length b < 19" by simp
    then have "h = copy_go (make_bytes 19) b" using h by (simp add: min_def)
    with Atoi_padded_None [OF lt] at show False by simp
  qed
  then have h19: "h = take 19 b"
    using h by (simp add: copy_go_def make_bytes_def min_def)
  have c1p: "\<not> closed c1" "tx c1 = tx c" using c1 nc by simp_all
  have "\<not> closed c' \<and> tx c' = tx c"
    using assms nc r1 at c1p
    by (auto simp: readResponse_def Conn_SetReadDeadline_def Conn_Read_def Let_def
        split: if_splits prod.splits sum.splits option.splits list.splits rx_event.splits)
  with rx ge h19 show ?thesis by blast
qed

lemma keepalive_open:
  "\<not> closed c \<Longrightarrow>
   keepalive ticks sessionID c =
     (None, c\<lparr>tx := tx c @ replicate ticks (createHeader sessionID 57 @ enqXML)\<rparr>)"
proof (induction ticks arbitrary: c)
  case 0
  then show ?case by simp
next
  case (Suc ticks)
  then show ?case
    by (simp add: sendMessage_eq enqXML_def)
qed

lemma main_scenario:
  "fst (main scenario_marshal scenario_config ''0000000001'' 2
      (open_conn [Bytes (''SESSIONKEY000001'' @ ''019'' @ ''<a/>'')])) = Inr ''SESSIONKEY000001''"
  by code_simp

section \<open>Framing\<close>

text \<open>
  C1. The claim asks for a 19-byte header whose length field is the payload length plus 19.
  The frame \<open>sendMessage\<close> writes for the 25-byte enquire link under a 16-byte key has a
  32-byte header: the key, the digits \<open>057\<close> (25 + 32, where 25 + 19 is 44) and 13 zero
  bytes, then the payload.
\<close>

theorem sendMessage_header_has_32_bytes:
  "sendMessage (open_conn []) ''<ENQRequest></ENQRequest>'' ''SESSIONKEY000001'' =
     (None,
      \<lparr>rx = [],
       tx = [''SESSIONKEY000001'' @ ''057'' @ replicate 13 NUL @ ''<ENQRequest></ENQRequest>''],
       closed = False\<rparr>)"
  by code_simp

text \<open>
  C2. The claim asks that reading back what was sent returns the key and the payload. The
  frame \<open>sendMessage\<close> writes for the enquire link, delivered whole to \<open>readResponse\<close>,
  comes back with a body that is not the payload: the 13 zero bytes that end the header,
  the payload, and 3 zero bytes of the buffer that was never filled.
\<close>

theorem roundtrip_returns_other_body:
  "fst (readResponse (open_conn (map Bytes (tx (snd
      (sendMessage (open_conn []) ''<ENQRequest></ENQRequest>'' ''SESSIONKEY000001''))))))
   = Inr (''SESSIONKEY000001057'',
          replicate 13 NUL @ ''<ENQRequest></ENQRequest>'' @ replicate 3 NUL)"
  by code_simp

text \<open>
  C3. The claim asks that a payload whose length plus 19 exceeds 999 be refused and no
  frame be written, since the length field has three digits. For a payload of 981 bytes
  (981 + 19 exceeds 999) \<open>sendMessage\<close> returns no error and writes one frame, whose
  length field holds the four digits \<open>1013\<close>, printed by the line of \<open>createHeader\<close>
  that is there to keep the length at three digits.
\<close>

theorem sendMessage_long_payload_is_sent:
  "999 < length (replicate 981 (CHR ''a'')) + 19
   \<and> fst (sendMessage (open_conn []) (replicate 981 (CHR ''a'')) ''R1'') = None
   \<and> tx (snd (sendMessage (open_conn []) (replicate 981 (CHR ''a'')) ''R1''))
       = [createHeader ''R1'' 1013 @ replicate 981 (CHR ''a'')]
   \<and> take 4 (drop 16 (createHeader ''R1'' 1013)) = ''1013''"
proof -
  have "take 4 (drop 16 (createHeader ''R1'' 1013)) = ''1013''" by code_simp
  then show ?thesis
    by (simp add: sendMessage_eq open_conn_def)
qed

text \<open>
  C4. The claim asks that a body shorter than declared be an error. A header that declares
  length 25 (a body of 9 bytes) followed by only 5 bytes is returned by \<open>readResponse\<close> as
  a success: the body is the 5 bytes and 4 zero bytes.
\<close>

theorem readResponse_short_body_is_success:
  "readResponse (open_conn [Bytes ''SESSIONKEY000001025'', Bytes ''hello'']) =
     (Inr (''SESSIONKEY000001025'', ''hello'' @ replicate 4 NUL), open_conn [])"
  by code_simp

section \<open>Requests that are dropped\<close>

text \<open>
  C5. A request that carries an error code, and a request whose \<open>EndOfSession\<close> is 1, is
  answered by nothing: the responder returns with the connection, the menu service and the
  monitoring untouched, so no frame is written.
\<close>

theorem handleUSSDRequest_error_or_ended_silent:
  assumes "ErrorCode req \<noteq> [] \<or> EndOfSession req = 1"
  shows "handleUSSDRequest env req w = w"
  using assms by (auto simp: handleUSSDRequest_def)

theorem handleUSSDRequest_error_or_ended_silent_witness:
  "ErrorCode (scenario_request\<lparr>ErrorCode := ''E42''\<rparr>) \<noteq> []
   \<and> handleUSSDRequest (scenario_env True) (scenario_request\<lparr>ErrorCode := ''E42''\<rparr>) scenario_world
       = scenario_world
   \<and> EndOfSession (scenario_request\<lparr>EndOfSession := 1\<rparr>) = 1
   \<and> handleUSSDRequest (scenario_env True) (scenario_request\<lparr>EndOfSession := 1\<rparr>) scenario_world
       = scenario_world"
proof -
  have e: "ErrorCode (scenario_request\<lparr>ErrorCode := ''E42''\<rparr>) \<noteq> []" by simp
  have s: "EndOfSession (scenario_request\<lparr>EndOfSession := 1\<rparr>) = 1" by simp
  from e have e': "ErrorCode (scenario_request\<lparr>ErrorCode := ''E42''\<rparr>) \<noteq> []
      \<or> EndOfSession (scenario_request\<lparr>ErrorCode := ''E42''\<rparr>) = 1" by simp
  from s have s': "ErrorCode (scenario_request\<lparr>EndOfSession := 1\<rparr>) \<noteq> []
      \<or> EndOfSession (scenario_request\<lparr>EndOfSession := 1\<rparr>) = 1" by simp
  show ?thesis
    using e s handleUSSDRequest_error_or_ended_silent [OF e', of "scenario_env True" scenario_world]
      handleUSSDRequest_error_or_ended_silent [OF s', of "scenario_env True" scenario_world]
    by simp
qed

text \<open>
  C6. A continuing request (no error code, \<open>EndOfSession\<close> 0) whose message type is
  neither 1 nor 4, or whose user data is empty, writes no frame and posts nothing to the
  menu service.
\<close>

theorem handleUSSDRequest_invalid_silent:
  assumes "ErrorCode req = []" and "EndOfSession req = 0"
    and "(MsgType req \<noteq> 1 \<and> MsgType req \<noteq> 4) \<or> UserData req = []"
  shows "tx (conn (handleUSSDRequest env req w)) = tx (conn w)
         \<and> menu_calls (handleUSSDRequest env req w) = menu_calls w"
  using assms
  by (auto simp: handleUSSDRequest_def handleMenuRequest_def UpdateMonitoringService_def Let_def)

theorem handleUSSDRequest_invalid_silent_witness:
  "ErrorCode (scenario_request\<lparr>MsgType := 3\<rparr>) = []
   \<and> EndOfSession (scenario_request\<lparr>MsgType := 3\<rparr>) = 0
   \<and> MsgType (scenario_request\<lparr>MsgType := 3\<rparr>) \<noteq> 1
   \<and> MsgType (scenario_request\<lparr>MsgType := 3\<rparr>) \<noteq> 4
   \<and> tx (conn (handleUSSDRequest (scenario_env True) (scenario_request\<lparr>MsgType := 3\<rparr>) scenario_world)) = []
   \<and> menu_calls (handleUSSDRequest (scenario_env True) (scenario_request\<lparr>MsgType := 3\<rparr>) scenario_world) = []
   \<and> UserData (scenario_request\<lparr>UserData := []\<rparr>) = []
   \<and> tx (conn (handleUSSDRequest (scenario_env True) (scenario_request\<lparr>UserData := []\<rparr>) scenario_world)) = []
   \<and> menu_calls (handleUSSDRequest (scenario_env True) (scenario_request\<lparr>UserData := []\<rparr>) scenario_world) = []"
proof -
  have a1: "ErrorCode (scenario_request\<lparr>MsgType := 3\<rparr>) = []"
    and a2: "EndOfSession (scenario_request\<lparr>MsgType := 3\<rparr>) = 0"
    and a3: "MsgType (scenario_request\<lparr>MsgType := 3\<rparr>) \<noteq> 1 \<and> MsgType (scenario_request\<lparr>MsgType := 3\<rparr>) \<noteq> 4"
    by (simp_all add: scenario_request_def)
  have b1: "ErrorCode (scenario_request\<lparr>UserData := []\<rparr>) = []"
    and b2: "EndOfSession (scenario_request\<lparr>UserData := []\<rparr>) = 0"
    and b3: "UserData (scenario_request\<lparr>UserData := []\<rparr>) = []"
    by (simp_all add: scenario_request_def)
  have w: "tx (conn scenario_world) = []" "menu_calls scenario_world = []"
    by (simp_all add: scenario_world_def open_conn_def)
  from a3 have a3': "(MsgType (scenario_request\<lparr>MsgType := 3\<rparr>) \<noteq> 1 \<and> MsgType (scenario_request\<lparr>MsgType := 3\<rparr>) \<noteq> 4)
      \<or> UserData (scenario_request\<lparr>MsgType := 3\<rparr>) = []" by simp
  from b3 have b3': "(MsgType (scenario_request\<lparr>UserData := []\<rparr>) \<noteq> 1 \<and> MsgType (scenario_request\<lparr>UserData := []\<rparr>) \<noteq> 4)
      \<or> UserData (scenario_request\<lparr>UserData := []\<rparr>) = []" by simp
  show ?thesis
    using a1 a2 a3 b3 w
      handleUSSDRequest_invalid_silent [OF a1 a2 a3', of "scenario_env True" scenario_world]
      handleUSSDRequest_invalid_silent [OF b1 b2 b3', of "scenario_env True" scenario_world]
    by simp
qed

section \<open>The reply\<close>

text \<open>
  C7. When a request passes the checks (no error code, \<open>EndOfSession\<close> 0, message type 1
  or 4, user data present), the menu service answers, and the write succeeds, exactly one
  frame is written. Its payload is the reply that copies \<open>requestId\<close>, \<open>msisdn\<close>,
  \<open>starCode\<close>, \<open>clientId\<close>, \<open>phase\<close> and \<open>dcs\<close> from the request, has the text of the
  menu service as user data, and has \<open>EndOfSession\<close> 0 when the service says continue and
  1 when it does not. The payload is given byte for byte: the frame is a 32-byte header
  followed by the printed template with these values in it. The 16-byte key field of the
  frame is the request identifier of the request (cut or zero-padded to 16 bytes); no
  session key of the connection enters.
\<close>

theorem reply_copies_request:
  assumes "ErrorCode req = []" and "EndOfSession req = 0"
    and "MsgType req = 1 \<or> MsgType req = 4" and "UserData req \<noteq> []"
    and "USSD_API_URL env \<noteq> []"
    and "menu_api env \<lparr>Telco = ''MTN'', Shortcode = ''*'' @ StarCode req @ ''#'', ProductID = 2,
                    Phone = MSISDN req, Input = UserData req, SessionID = RequestID req\<rparr> = Inr r"
    and "\<not> closed (conn w)"
  shows "\<exists>frame xml.
           tx (conn (handleUSSDRequest env req w)) = tx (conn w) @ [frame]
         \<and> xml = USSDResponse_xml
                  \<lparr>resp_RequestID = RequestID req, resp_MSISDN = MSISDN req,
                   resp_StarCode = StarCode req, resp_ClientID = ClientID req,
                   resp_Phase = Phase req, resp_DCS = DCS req,
                   resp_MsgType = (if Continue r then 2 else 6),
                   resp_UserData = Message r,
                   resp_EndOfSession = (if Continue r then 0 else 1)\<rparr>
         \<and> drop 32 frame = xml
         \<and> drop 32 frame =
               ''<USSDResponse>'' @ [CHR 0x0A, CHR 0x09]
               @ ''<requestId>'' @ RequestID req @ ''</requestId>'' @ [CHR 0x0A, CHR 0x09]
               @ ''<msisdn>'' @ MSISDN req @ ''</msisdn>'' @ [CHR 0x0A, CHR 0x09]
               @ ''<starCode>'' @ StarCode req @ ''</starCode>'' @ [CHR 0x0A, CHR 0x09]
               @ ''<clientId>'' @ ClientID req @ ''</clientId>'' @ [CHR 0x0A, CHR 0x09]
               @ ''<phase>'' @ Sprintf_d (Phase req) @ ''</phase>'' @ [CHR 0x0A, CHR 0x09]
               @ ''<dcs>'' @ Sprintf_d (DCS req) @ ''</dcs>'' @ [CHR 0x0A, CHR 0x09]
               @ ''<msgtype>'' @ (if Continue r then ''2'' else ''6'') @ ''</msgtype>''
               @ [CHR 0x0A, CHR 0x09]
               @ ''<userdata>'' @ Message r @ ''</userdata>'' @ [CHR 0x0A, CHR 0x09]
               @ ''<EndofSession>'' @ (if Continue r then ''0'' else ''1'') @ ''</EndofSession>''
               @ [CHR 0x0A, CHR 0x09]
               @ ''</USSDResponse>''
         \<and> length frame = 32 + length xml
         \<and> take 16 frame = take 16 (RequestID req @ replicate 16 NUL)"
proof -
  let ?resp = "\<lparr>resp_RequestID = RequestID req, resp_MSISDN = MSISDN req,
                   resp_StarCode = StarCode req, resp_ClientID = ClientID req,
                   resp_Phase = Phase req, resp_DCS = DCS req,
                   resp_MsgType = (if Continue r then 2 else 6),
                   resp_UserData = Message r,
                   resp_EndOfSession = (if Continue r then 0 else 1)\<rparr>"
  let ?xml = "USSDResponse_xml ?resp"
  let ?frame = "createHeader (RequestID req) (int (length ?xml) + 32) @ ?xml"
  have h: "tx (conn (handleUSSDRequest env req w)) = tx (conn w) @ [?frame]"
    using assms(1-4,7) assms(6)
    by (cases "Continue r")
      (auto simp: handleUSSDRequest_def handleMenuRequest_def getUssdMenu_ok [OF assms(5)]
        Let_def sendMessage_eq UpdateMonitoringService_def)
  have d: "drop 32 ?frame = ?xml"
    by (simp add: length_createHeader)
  have e: "?xml =
               ''<USSDResponse>'' @ [CHR 0x0A, CHR 0x09]
               @ ''<requestId>'' @ RequestID req @ ''</requestId>'' @ [CHR 0x0A, CHR 0x09]
               @ ''<msisdn>'' @ MSISDN req @ ''</msisdn>'' @ [CHR 0x0A, CHR 0x09]
               @ ''<starCode>'' @ StarCode req @ ''</starCode>'' @ [CHR 0x0A, CHR 0x09]
               @ ''<clientId>'' @ ClientID req @ ''</clientId>'' @ [CHR 0x0A, CHR 0x09]
               @ ''<phase>'' @ Sprintf_d (Phase req) @ ''</phase>'' @ [CHR 0x0A, CHR 0x09]
               @ ''<dcs>'' @ Sprintf_d (DCS req) @ ''</dcs>'' @ [CHR 0x0A, CHR 0x09]
               @ ''<msgtype>'' @ (if Continue r then ''2'' else ''6'') @ ''</msgtype>''
               @ [CHR 0x0A, CHR 0x09]
               @ ''<userdata>'' @ Message r @ ''</userdata>'' @ [CHR 0x0A, CHR 0x09]
               @ ''<EndofSession>'' @ (if Continue r then ''0'' else ''1'') @ ''</EndofSession>''
               @ [CHR 0x0A, CHR 0x09]
               @ ''</USSDResponse>''"
    by (cases "Continue r") (simp_all add: USSDResponse_xml_def Sprintf_d_small nl_tab_def)
  have l: "length ?frame = 32 + length ?xml"
    by (simp add: length_createHeader)
  have t: "take 16 ?frame = take 16 (RequestID req @ replicate 16 NUL)"
    using take16_createHeader [of "RequestID req" "int (length ?xml) + 32"]
    by (simp add: length_createHeader)
  from d e have de: "drop 32 ?frame =
               ''<USSDResponse>'' @ [CHR 0x0A, CHR 0x09]
               @ ''<requestId>'' @ RequestID req @ ''</requestId>'' @ [CHR 0x0A, CHR 0x09]
               @ ''<msisdn>'' @ MSISDN req @ ''</msisdn>'' @ [CHR 0x0A, CHR 0x09]
               @ ''<starCode>'' @ StarCode req @ ''</starCode>'' @ [CHR 0x0A, CHR 0x09]
               @ ''<clientId>'' @ ClientID req @ ''</clientId>'' @ [CHR 0x0A, CHR 0x09]
               @ ''<phase>'' @ Sprintf_d (Phase req) @ ''</phase>'' @ [CHR 0x0A, CHR 0x09]
               @ ''<dcs>'' @ Sprintf_d (DCS req) @ ''</dcs>'' @ [CHR 0x0A, CHR 0x09]
               @ ''<msgtype>'' @ (if Continue r then ''2'' else ''6'') @ ''</msgtype>''
               @ [CHR 0x0A, CHR 0x09]
               @ ''<userdata>'' @ Message r @ ''</userdata>'' @ [CHR 0x0A, CHR 0x09]
               @ ''<EndofSession>'' @ (if Continue r then ''0'' else ''1'') @ ''</EndofSession>''
               @ [CHR 0x0A, CHR 0x09]
               @ ''</USSDResponse>''"
    by (rule trans)
  from h d de l t show ?thesis by blast
qed

theorem reply_copies_request_witness:
  "ErrorCode scenario_request = [] \<and> EndOfSession scenario_request = 0
   \<and> MsgType scenario_request = 1 \<and> UserData scenario_request \<noteq> []
   \<and> USSD_API_URL (scenario_env False) \<noteq> [] \<and> \<not> closed (conn scenario_world)
   \<and> (\<exists>frame.
          tx (conn (handleUSSDRequest (scenario_env False) scenario_request scenario_world)) = [frame]
        \<and> drop 32 frame = USSDResponse_xml
             \<lparr>resp_RequestID = ''R1'', resp_MSISDN = ''2348011112222'', resp_StarCode = ''123'',
              resp_ClientID = ''7'', resp_Phase = 2, resp_DCS = 15, resp_MsgType = 6,
              resp_UserData = ''Menu text'', resp_EndOfSession = 1\<rparr>
        \<and> drop 32 frame =
               ''<USSDResponse>'' @ [CHR 0x0A, CHR 0x09]
               @ ''<requestId>R1</requestId>'' @ [CHR 0x0A, CHR 0x09]
               @ ''<msisdn>2348011112222</msisdn>'' @ [CHR 0x0A, CHR 0x09]
               @ ''<starCode>123</starCode>'' @ [CHR 0x0A, CHR 0x09]
               @ ''<clientId>7</clientId>'' @ [CHR 0x0A, CHR 0x09]
               @ ''<phase>2</phase>'' @ [CHR 0x0A, CHR 0x09]
               @ ''<dcs>15</dcs>'' @ [CHR 0x0A, CHR 0x09]
               @ ''<msgtype>6</msgtype>'' @ [CHR 0x0A, CHR 0x09]
               @ ''<userdata>Menu text</userdata>'' @ [CHR 0x0A, CHR 0x09]
               @ ''<EndofSession>1</EndofSession>'' @ [CHR 0x0A, CHR 0x09]
               @ ''</USSDResponse>''
        \<and> length frame = 291
        \<and> take 16 frame = ''R1'' @ replicate 14 (CHR 0x00))"
proof -
  have h1: "ErrorCode scenario_request = []" and h2: "EndOfSession scenario_request = 0"
    and h3: "MsgType scenario_request = 1 \<or> MsgType scenario_request = 4"
    and h3': "MsgType scenario_request = 1"
    and h4: "UserData scenario_request \<noteq> []"
    by (simp_all add: scenario_request_def)
  have h5: "USSD_API_URL (scenario_env False) \<noteq> []"
    by (simp add: scenario_env_def)
  have h6: "menu_api (scenario_env False)
       \<lparr>Telco = ''MTN'', Shortcode = ''*'' @ StarCode scenario_request @ ''#'', ProductID = 2,
        Phone = MSISDN scenario_request, Input = UserData scenario_request,
        SessionID = RequestID scenario_request\<rparr> = Inr \<lparr>Message = ''Menu text'', Continue = False\<rparr>"
    by (simp add: scenario_env_def)
  have h7: "\<not> closed (conn scenario_world)"
    by (simp add: scenario_world_def open_conn_def)
  have w: "tx (conn scenario_world) = []"
    by (simp add: scenario_world_def open_conn_def)
  from reply_copies_request [OF h1 h2 h3 h4 h5 h6 h7]
  obtain frame xml where f1:
    "tx (conn (handleUSSDRequest (scenario_env False) scenario_request scenario_world)) = [frame]"
    and f2: "xml = USSDResponse_xml
             \<lparr>resp_RequestID = ''R1'', resp_MSISDN = ''2348011112222'', resp_StarCode = ''123'',
              resp_ClientID = ''7'', resp_Phase = 2, resp_DCS = 15, resp_MsgType = 6,
              resp_UserData = ''Menu text'', resp_EndOfSession = 1\<rparr>"
    and f3: "drop 32 frame = xml"
    and f4: "drop 32 frame =
               ''<USSDResponse>'' @ [CHR 0x0A, CHR 0x09]
               @ ''<requestId>R1</requestId>'' @ [CHR 0x0A, CHR 0x09]
               @ ''<msisdn>2348011112222</msisdn>'' @ [CHR 0x0A, CHR 0x09]
               @ ''<starCode>123</starCode>'' @ [CHR 0x0A, CHR 0x09]
               @ ''<clientId>7</clientId>'' @ [CHR 0x0A, CHR 0x09]
               @ ''<phase>2</phase>'' @ [CHR 0x0A, CHR 0x09]
               @ ''<dcs>15</dcs>'' @ [CHR 0x0A, CHR 0x09]
               @ ''<msgtype>6</msgtype>'' @ [CHR 0x0A, CHR 0x09]
               @ ''<userdata>Menu text</userdata>'' @ [CHR 0x0A, CHR 0x09]
               @ ''<EndofSession>1</EndofSession>'' @ [CHR 0x0A, CHR 0x09]
               @ ''</USSDResponse>''"
    and f5: "length frame = 32 + length xml"
    and f6: "take 16 frame = ''R1'' @ replicate 14 (CHR 0x00)"
    by (auto simp: w scenario_request_def Sprintf_d_def digit_char_def NUL_def)
  from f3 f4 have "xml =
               ''<USSDResponse>'' @ [CHR 0x0A, CHR 0x09]
               @ ''<requestId>R1</requestId>'' @ [CHR 0x0A, CHR 0x09]
               @ ''<msisdn>2348011112222</msisdn>'' @ [CHR 0x0A, CHR 0x09]
               @ ''<starCode>123</starCode>'' @ [CHR 0x0A, CHR 0x09]
               @ ''<clientId>7</clientId>'' @ [CHR 0x0A, CHR 0x09]
               @ ''<phase>2</phase>'' @ [CHR 0x0A, CHR 0x09]
               @ ''<dcs>15</dcs>'' @ [CHR 0x0A, CHR 0x09]
               @ ''<msgtype>6</msgtype>'' @ [CHR 0x0A, CHR 0x09]
               @ ''<userdata>Menu text</userdata>'' @ [CHR 0x0A, CHR 0x09]
               @ ''<EndofSession>1</EndofSession>'' @ [CHR 0x0A, CHR 0x09]
               @ ''</USSDResponse>''" by simp
  then have "length xml = 259" by simp
  with f5 have f7: "length frame = 291" by simp
  from f1 f2 f3 f4 f6 f7 h1 h2 h3' h4 h5 h7 show ?thesis by blast
qed

text \<open>
  C10. Every frame the responder writes carries, in the text of its payload, the message
  type 2 together with \<open>EndofSession\<close> 0 when the menu service said continue, and the
  message type 6 together with \<open>EndofSession\<close> 1 when it did not; there is no other frame.
\<close>

theorem reply_msgtype_2_or_6:
  assumes "f \<in> set (drop (length (tx (conn w))) (tx (conn (handleUSSDRequest env req w))))"
  shows "\<exists>r. menu_api env \<lparr>Telco = ''MTN'', Shortcode = ''*'' @ StarCode req @ ''#'', ProductID = 2,
                    Phone = MSISDN req, Input = UserData req, SessionID = RequestID req\<rparr> = Inr r
           \<and> drop 32 f =
               ''<USSDResponse>'' @ nl_tab
               @ ''<requestId>'' @ RequestID req @ ''</requestId>'' @ nl_tab
               @ ''<msisdn>'' @ MSISDN req @ ''</msisdn>'' @ nl_tab
               @ ''<starCode>'' @ StarCode req @ ''</starCode>'' @ nl_tab
               @ ''<clientId>'' @ ClientID req @ ''</clientId>'' @ nl_tab
               @ ''<phase>'' @ Sprintf_d (Phase req) @ ''</phase>'' @ nl_tab
               @ ''<dcs>'' @ Sprintf_d (DCS req) @ ''</dcs>'' @ nl_tab
               @ ''<msgtype>'' @ (if Continue r then ''2'' else ''6'') @ ''</msgtype>'' @ nl_tab
               @ ''<userdata>'' @ Message r @ ''</userdata>'' @ nl_tab
               @ ''<EndofSession>'' @ (if Continue r then ''0'' else ''1'') @ ''</EndofSession>'' @ nl_tab
               @ ''</USSDResponse>''"
proof -
  from handleUSSDRequest_tx_cases [of env req w] assms
  obtain r where r: "menu_api env \<lparr>Telco = ''MTN'', Shortcode = ''*'' @ StarCode req @ ''#'', ProductID = 2,
                    Phone = MSISDN req, Input = UserData req, SessionID = RequestID req\<rparr> = Inr r"
    and f: "f = createHeader (RequestID req)
                  (int (length (USSDResponse_xml
                     \<lparr>resp_RequestID = RequestID req, resp_MSISDN = MSISDN req,
                      resp_StarCode = StarCode req, resp_ClientID = ClientID req,
                      resp_Phase = Phase req, resp_DCS = DCS req,
                      resp_MsgType = (if Continue r then 2 else 6),
                      resp_UserData = Message r,
                      resp_EndOfSession = (if Continue r then 0 else 1)\<rparr>)) + 32)
                @ USSDResponse_xml
                     \<lparr>resp_RequestID = RequestID req, resp_MSISDN = MSISDN req,
                      resp_StarCode = StarCode req, resp_ClientID = ClientID req,
                      resp_Phase = Phase req, resp_DCS = DCS req,
                      resp_MsgType = (if Continue r then 2 else 6),
                      resp_UserData = Message r,
                      resp_EndOfSession = (if Continue r then 0 else 1)\<rparr>"
    by auto
  have "drop 32 f = USSDResponse_xml
                     \<lparr>resp_RequestID = RequestID req, resp_MSISDN = MSISDN req,
                      resp_StarCode = StarCode req, resp_ClientID = ClientID req,
                      resp_Phase = Phase req, resp_DCS = DCS req,
                      resp_MsgType = (if Continue r then 2 else 6),
                      resp_UserData = Message r,
                      resp_EndOfSession = (if Continue r then 0 else 1)\<rparr>"
    unfolding f by (simp add: length_createHeader)
  with r show ?thesis
    by (cases "Continue r") (simp_all add: USSDResponse_xml_def Sprintf_d_small)
qed

theorem reply_msgtype_2_or_6_witness:
  "(\<exists>f. f \<in> set (drop (length (tx (conn scenario_world)))
              (tx (conn (handleUSSDRequest (scenario_env True) scenario_request scenario_world))))
      \<and> drop 32 f =
               ''<USSDResponse>'' @ nl_tab
               @ ''<requestId>R1</requestId>'' @ nl_tab
               @ ''<msisdn>2348011112222</msisdn>'' @ nl_tab
               @ ''<starCode>123</starCode>'' @ nl_tab
               @ ''<clientId>7</clientId>'' @ nl_tab
               @ ''<phase>2</phase>'' @ nl_tab
               @ ''<dcs>15</dcs>'' @ nl_tab
               @ ''<msgtype>2</msgtype>'' @ nl_tab
               @ ''<userdata>Menu text</userdata>'' @ nl_tab
               @ ''<EndofSession>0</EndofSession>'' @ nl_tab
               @ ''</USSDResponse>'')"
proof -
  have l: "length (tx (conn (handleUSSDRequest (scenario_env True) scenario_request scenario_world))) = 1"
    by (simp add: handleUSSDRequest_def handleMenuRequest_def getUssdMenu_def Let_def
        sendMessage_eq UpdateMonitoringService_def scenario_env_def scenario_request_def
        scenario_world_def open_conn_def)
  then obtain f where f: "tx (conn (handleUSSDRequest (scenario_env True) scenario_request scenario_world)) = [f]"
    by (cases "tx (conn (handleUSSDRequest (scenario_env True) scenario_request scenario_world))") auto
  have w0: "length (tx (conn scenario_world)) = 0"
    by (simp add: scenario_world_def open_conn_def)
  have m: "f \<in> set (drop (length (tx (conn scenario_world)))
              (tx (conn (handleUSSDRequest (scenario_env True) scenario_request scenario_world))))"
    unfolding w0 f by simp
  from reply_msgtype_2_or_6 [OF m]
  have "drop 32 f =
               ''<USSDResponse>'' @ nl_tab
               @ ''<requestId>R1</requestId>'' @ nl_tab
               @ ''<msisdn>2348011112222</msisdn>'' @ nl_tab
               @ ''<starCode>123</starCode>'' @ nl_tab
               @ ''<clientId>7</clientId>'' @ nl_tab
               @ ''<phase>2</phase>'' @ nl_tab
               @ ''<dcs>15</dcs>'' @ nl_tab
               @ ''<msgtype>2</msgtype>'' @ nl_tab
               @ ''<userdata>Menu text</userdata>'' @ nl_tab
               @ ''<EndofSession>0</EndofSession>'' @ nl_tab
               @ ''</USSDResponse>''"
    by (auto simp: scenario_env_def scenario_request_def Sprintf_d_def digit_char_def)
  with m show ?thesis by blast
qed

section \<open>The session key\<close>

text \<open>
  C8. When \<open>main\<close> gets through the logon, the session identifier is the first 16 bytes
  of the header of the response frame, that is of what the peer delivered, whatever request
  identifier was sent; and every frame written after the logon frame is an enquire link
  whose 16-byte key field is that identifier, one per tick.
\<close>

theorem session_key_from_logon_response:
  assumes "main marshal cfg requestID ticks c = (Inr sessionID, c')"
  shows "\<exists>b es logon_frame.
           rx c = Bytes b # es \<and> 19 \<le> length b \<and> sessionID = take 16 b
         \<and> tx c' = tx c @ logon_frame # replicate ticks (createHeader sessionID 57 @ enqXML)
         \<and> take 16 (createHeader sessionID 57 @ enqXML) = sessionID"
proof -
  let ?logonXML = "marshal \<lparr>logon_RequestID = requestID, logon_Username = Username cfg,
       logon_Password = Password cfg, logon_ApplicationID = ClientID_env cfg\<rparr>"
  let ?lf = "createHeader requestID (int (length ?logonXML) + 32) @ ?logonXML"
  let ?c1 = "c\<lparr>tx := tx c @ [?lf]\<rparr>"
  from assms have nc: "\<not> closed c"
    by (auto simp: main_def Let_def sendMessage_eq split: if_splits)
  then have s1: "sendMessage c ?logonXML requestID = (None, ?c1)"
    by (simp add: sendMessage_eq)
  from assms s1 obtain h body c2 where rr: "readResponse ?c1 = (Inr (h, body), c2)"
    and sid: "sessionID = take 16 h"
    and ka: "keepalive ticks (take 16 h) c2 = (None, c')"
    by (auto simp: main_def Let_def split: prod.splits sum.splits option.splits)
  from readResponse_ok_header [OF rr]
  obtain b es where rx: "rx c = Bytes b # es" and ge: "19 \<le> length b" and h: "h = take 19 b"
    and nc2: "\<not> closed c2" and tx2: "tx c2 = tx c @ [?lf]"
    by auto
  from sid h ge have sb: "sessionID = take 16 b" by (simp add: min_def)
  with ge have len: "length sessionID = 16" by simp
  from ka keepalive_open [OF nc2, of ticks "take 16 h"] sid tx2
  have tx': "tx c' = tx c @ ?lf # replicate ticks (createHeader sessionID 57 @ enqXML)"
    by auto
  have key: "take 16 (createHeader sessionID 57 @ enqXML) = sessionID"
    using take16_createHeader [of sessionID 57] len by (simp add: length_createHeader)
  from rx ge sb tx' key show ?thesis by blast
qed

theorem session_key_from_logon_response_witness:
  "fst (main scenario_marshal scenario_config ''0000000001'' 2
          (open_conn [Bytes (''SESSIONKEY000001'' @ ''019'' @ ''<a/>'')])) = Inr ''SESSIONKEY000001''
   \<and> (\<exists>logon_frame.
          tx (snd (main scenario_marshal scenario_config ''0000000001'' 2
                    (open_conn [Bytes (''SESSIONKEY000001'' @ ''019'' @ ''<a/>'')])))
          = logon_frame # replicate 2 (createHeader ''SESSIONKEY000001'' 57 @ enqXML))
   \<and> take 16 (createHeader ''SESSIONKEY000001'' 57 @ enqXML) = ''SESSIONKEY000001''"
proof -
  let ?c = "open_conn [Bytes (''SESSIONKEY000001'' @ ''019'' @ ''<a/>'')]"
  let ?m = "main scenario_marshal scenario_config ''0000000001'' 2 ?c"
  have m: "?m = (Inr ''SESSIONKEY000001'', snd ?m)"
    using main_scenario by (simp add: prod_eq_iff)
  have t: "tx ?c = []" by (simp add: open_conn_def)
  from session_key_from_logon_response [OF m] t main_scenario
  show ?thesis by auto
qed

end
